theory Spec2Isabelle
  imports Main "HOL-Library.Word"
begin

section \<open>The handshake cell\<close>

text \<open>
  One record models both \<open>PTOHandshake\<close> (pto_task.h) and \<open>Handshake\<close>
  (a2a3_runtime.c): the two structures have the same protocol fields. The task field
  is a 64-bit device address; 0 is the null pointer. The other fields are 32-bit
  integers that the code only compares with 0 and 1.
\<close>

type_synonym addr = nat

record Handshake =
  aicpu_ready :: nat
  aicore_done :: nat
  control :: int
  task :: addr
  task_status :: int
  core_type :: int

text \<open>
  A pointer into the task array (\<open>&graph->tasks[i]\<close>, \<open>g.get_task(i)\<close>) is modelled
  by the index plus one: it is never null and distinct tasks have distinct addresses,
  the two facts about C pointers that the scheduler relies on.
\<close>

definition task_ptr :: "nat \<Rightarrow> addr" where
  "task_ptr i = Suc i"

definition ptr_index :: "addr \<Rightarrow> nat" where
  "ptr_index p = p - 1"

section \<open>The worker loop (aicore_kernel.cpp)\<close>

text \<open>
  \<open>execute_task\<close> returns at once on a null task or a null \<open>functionBinAddr\<close>;
  otherwise it calls the kernel at that address. The parameter \<open>bin\<close> reads the
  field \<open>functionBinAddr\<close> of the task a pointer refers to. The result is the kernel
  entry that was called, if any.
\<close>

definition execute_task :: "(addr \<Rightarrow> nat) \<Rightarrow> addr \<Rightarrow> nat option" where
  "execute_task bin task_p =
     (if task_p = 0 then None
      else if bin task_p = 0 then None
      else Some (bin task_p))"

text \<open>
  What one pass through the body of \<open>while (true)\<close> did: left the loop on the quit
  signal, called \<open>execute_task\<close> on a pointer (with the kernel entry it invoked), or
  found nothing to do.
\<close>

datatype worker_event = Quit | Ran addr "nat option" | Polled

definition worker_iter :: "(addr \<Rightarrow> nat) \<Rightarrow> Handshake \<Rightarrow> Handshake \<times> worker_event" where
  "worker_iter bin my_hank =
     (if control my_hank = 1 then (my_hank, Quit)
      else if task my_hank \<noteq> 0 then
        (my_hank\<lparr>task_status := 0\<rparr>, Ran (task my_hank) (execute_task bin (task my_hank)))
      else (my_hank, Polled))"

definition dispatches :: "worker_event \<Rightarrow> bool" where
  "dispatches e = (case e of Ran p k \<Rightarrow> True | _ \<Rightarrow> False)"

text \<open>
  Core 0 after its worker ran task 0: the pointer is still in the cell, the status is
  0, and the scheduler has not collected the completion yet.
\<close>

definition done_cell :: Handshake where
  "done_cell = \<lparr>aicpu_ready = 1, aicore_done = 1, control = 0, task = task_ptr 0,
                 task_status = 0, core_type = 0\<rparr>"

definition bin4096 :: "addr \<Rightarrow> nat" where
  "bin4096 p = 4096"

section \<open>The single-threaded scheduler (aicpu_kernel.cpp, pto_task.h)\<close>

definition PTO_TASK_PENDING :: int where "PTO_TASK_PENDING = 0"
definition PTO_TASK_READY :: int where "PTO_TASK_READY = 1"
definition PTO_TASK_RUNNING :: int where "PTO_TASK_RUNNING = 2"
definition PTO_TASK_COMPLETE :: int where "PTO_TASK_COMPLETE = 3"

text \<open>
  The fields of \<open>PTOTask\<close> that the scheduler and the worker read or write
  (\<open>task_id\<close> and \<open>func_name\<close> only reach the log; a task is named by its index). The list
  \<open>dependents\<close> holds the first \<open>num_dependents\<close> entries of the array of that name.
  \<open>deps_remaining\<close> is an \<open>int32_t\<close> changed by \<open>__atomic_sub_fetch\<close>, which wraps.
\<close>

record PTOTask =
  functionBinAddr :: nat
  dep_count :: int
  deps_remaining :: "32 word"
  dependents :: "nat list"
  status :: int
  core_type :: int

text \<open>The list \<open>tasks\<close> holds the entries of the array below \<open>num_tasks\<close>.\<close>

record PTOTaskGraph =
  tasks_completed :: int
  tasks :: "PTOTask list"

definition num_tasks :: "PTOTaskGraph \<Rightarrow> nat" where
  "num_tasks graph = length (tasks graph)"

text \<open>
  The two stores that hand a task to a core, in program order:
  \<open>core_hank->task = (uint64_t)task; core_hank->task_status = 1;\<close>
  (and \<open>h->task = ...; h->task_status = 1;\<close> in graphexecutor.cpp).
\<close>

datatype cell_write = WriteTask addr | WriteStatus int

definition apply_write :: "Handshake \<Rightarrow> cell_write \<Rightarrow> Handshake" where
  "apply_write h w = (case w of WriteTask p \<Rightarrow> h\<lparr>task := p\<rparr> | WriteStatus v \<Rightarrow> h\<lparr>task_status := v\<rparr>)"

definition dispatch_writes :: "addr \<Rightarrow> cell_write list" where
  "dispatch_writes p = [WriteTask p, WriteStatus 1]"

text \<open>The cell after each store of a sequence, the state before the first store in front.\<close>

fun write_trace :: "Handshake \<Rightarrow> cell_write list \<Rightarrow> Handshake list" where
  "write_trace h [] = [h]"
| "write_trace h (w # ws) = h # write_trace (apply_write h w) ws"

definition publish :: "Handshake \<Rightarrow> addr \<Rightarrow> Handshake" where
  "publish h p = foldl apply_write h (dispatch_writes p)"

text \<open>
  The inner loop of \<open>schedule_tasks\<close>: the first task, from \<open>task_id\<close> upwards, that
  is ready and of the wanted core type.
\<close>

fun scan_tasks :: "PTOTask list \<Rightarrow> int \<Rightarrow> nat \<Rightarrow> nat option" where
  "scan_tasks [] ct task_id = None"
| "scan_tasks (t # ts) ct task_id =
     (if status t \<noteq> PTO_TASK_READY then scan_tasks ts ct (Suc task_id)
      else if PTOTask.core_type t \<noteq> ct then scan_tasks ts ct (Suc task_id)
      else Some task_id)"

text \<open>
  The body of the outer loop of \<open>schedule_tasks\<close> for one core. \<open>schedule_pick\<close> is
  the decision (the skip test, the core type from the index, the scan), \<open>schedule_core\<close>
  the assignment. The loop applies the body to the indices of the handshake array.
\<close>

definition index_core_type :: "int \<Rightarrow> nat \<Rightarrow> int" where
  "index_core_type aic_num core_id = (if int core_id < aic_num then 0 else 1)"

definition schedule_pick :: "int \<Rightarrow> PTOTaskGraph \<Rightarrow> Handshake \<Rightarrow> nat \<Rightarrow> nat option" where
  "schedule_pick aic_num graph core_hank core_id =
     (if task core_hank \<noteq> 0 \<and> task_status core_hank \<noteq> 0 then None
      else scan_tasks (tasks graph) (index_core_type aic_num core_id) 0)"

definition schedule_core ::
  "int \<Rightarrow> PTOTaskGraph \<times> Handshake list \<times> int \<Rightarrow> nat \<Rightarrow> PTOTaskGraph \<times> Handshake list \<times> int" where
  "schedule_core aic_num st core_id =
     (case st of (graph, hank, assigned) \<Rightarrow>
        (case schedule_pick aic_num graph (hank ! core_id) core_id of
           None \<Rightarrow> (graph, hank, assigned)
         | Some task_id \<Rightarrow>
             (graph\<lparr>tasks := (tasks graph)
                 [task_id := (tasks graph ! task_id)\<lparr>status := PTO_TASK_RUNNING\<rparr>]\<rparr>,
              hank[core_id := publish (hank ! core_id) (task_ptr task_id)],
              assigned + 1)))"

text \<open>The handshake array has \<open>core_num\<close> cells, so the loop visits every index of the list.\<close>

definition schedule_tasks ::
  "PTOTaskGraph \<Rightarrow> Handshake list \<Rightarrow> int \<Rightarrow> PTOTaskGraph \<times> Handshake list \<times> int" where
  "schedule_tasks graph hank aic_num =
     foldl (schedule_core aic_num) (graph, hank, 0) [0..<length hank]"

text \<open>
  The loop over the dependents of a completed task. A dependent id outside the graph
  makes the C code touch memory that is no task of the graph; the model stops with
  \<open>None\<close> there.
\<close>

definition release_dependent :: "PTOTask list \<Rightarrow> nat \<Rightarrow> PTOTask list option" where
  "release_dependent ts dep_id =
     (if dep_id < length ts then
        (let dep_task = ts ! dep_id;
             remaining = deps_remaining dep_task - 1;
             dep_task1 = dep_task\<lparr>deps_remaining := remaining\<rparr>
         in Some (ts[dep_id :=
              (if remaining = 0 \<and> status dep_task1 = PTO_TASK_PENDING
               then dep_task1\<lparr>status := PTO_TASK_READY\<rparr> else dep_task1)]))
      else None)"

fun release_dependents :: "PTOTask list \<Rightarrow> nat list \<Rightarrow> PTOTask list option" where
  "release_dependents ts [] = Some ts"
| "release_dependents ts (dep_id # rest) =
     (case release_dependent ts dep_id of
        None \<Rightarrow> None
      | Some ts' \<Rightarrow> release_dependents ts' rest)"

text \<open>The body of the loop of \<open>check_completions\<close> for one core.\<close>

definition complete_core ::
  "PTOTaskGraph \<times> Handshake list \<times> int \<Rightarrow> nat \<Rightarrow> (PTOTaskGraph \<times> Handshake list \<times> int) option" where
  "complete_core st core_id =
     (case st of (graph, hank, completed) \<Rightarrow>
        (let core_hank = hank ! core_id in
         if task core_hank \<noteq> 0 \<and> task_status core_hank = 0 then
           (let i = ptr_index (task core_hank) in
            if i < length (tasks graph) then
              (let ts1 = (tasks graph)[i := (tasks graph ! i)\<lparr>status := PTO_TASK_COMPLETE\<rparr>] in
               case release_dependents ts1 (dependents (ts1 ! i)) of
                 None \<Rightarrow> None
               | Some ts2 \<Rightarrow>
                   Some (graph\<lparr>tasks := ts2, tasks_completed := tasks_completed graph + 1\<rparr>,
                         hank[core_id := core_hank\<lparr>task := 0\<rparr>],
                         completed + 1))
            else None)
         else Some (graph, hank, completed)))"

fun check_cores ::
  "PTOTaskGraph \<times> Handshake list \<times> int \<Rightarrow> nat list \<Rightarrow> (PTOTaskGraph \<times> Handshake list \<times> int) option" where
  "check_cores st [] = Some st"
| "check_cores st (core_id # rest) =
     (case complete_core st core_id of
        None \<Rightarrow> None
      | Some st' \<Rightarrow> check_cores st' rest)"

definition check_completions ::
  "PTOTaskGraph \<Rightarrow> Handshake list \<Rightarrow> (PTOTaskGraph \<times> Handshake list \<times> int) option" where
  "check_completions graph hank = check_cores (graph, hank, 0) [0..<length hank]"

text \<open>
  The start of \<open>execute_graph\<close>: every task without dependencies becomes ready.
\<close>

definition mark_initially_ready :: "PTOTaskGraph \<Rightarrow> PTOTaskGraph" where
  "mark_initially_ready graph =
     graph\<lparr>tasks := map (\<lambda>t. if dep_count t = 0 then t\<lparr>status := PTO_TASK_READY\<rparr> else t)
                        (tasks graph)\<rparr>"

section \<open>The multi-threaded executor (graphexecutor.cpp)\<close>

text \<open>
  Modelled from the spec: graph.h, which declares \<open>Task\<close> and \<open>Graph\<close>, is missing.
  Spec 3 and 6: a task has an atomic fan-in counter, a bounded list of successor ids
  and a core kind (0 = Cube, 1 = Vector). The record has these fields under the names
  \<open>execute\<close> uses (\<open>task_id\<close> only reaches the log; a task is named by its
  index). \<open>fanin\<close> is a \<open>std::atomic<int>\<close> changed by \<open>fetch_sub\<close>, which
  wraps. The list \<open>fanout\<close> holds the first \<open>fanout_count\<close> entries of the array.
  \<open>g.get_task(i)\<close> is the task at index \<open>i\<close>, \<open>g.get_task_count()\<close> the length
  of the list.
\<close>

record Task =
  fanin :: "32 word"
  fanout :: "nat list"
  core_type :: int

type_synonym Graph = "Task list"

text \<open>
  Modelled from the spec: \<open>Graph::get_initial_ready_tasks\<close> is defined in graph.h,
  which is missing. Spec 4.A: \<open>initial_ready()\<close> is the list of all tasks with
  \<open>fanin == 0\<close>.
\<close>

definition get_initial_ready_tasks :: "Graph \<Rightarrow> nat list" where
  "get_initial_ready_tasks g = filter (\<lambda>i. fanin (g ! i) = 0) [0..<length g]"

text \<open>
  The statics of the anonymous namespace. The arrays \<open>ready_queue_aic_\<close> and
  \<open>ready_queue_aiv_\<close> are functions from the slot to its content (their capacity
  \<open>GRAPH_MAX_TASKS\<close> is a constant of graph.h and is not modelled); the counts never
  go below 0, since they are decremented under the mutex after a test \<open>count > 0\<close>.
\<close>

record executor =
  ready_queue_aic :: "nat \<Rightarrow> nat"
  ready_count_aic :: nat
  ready_queue_aiv :: "nat \<Rightarrow> nat"
  ready_count_aiv :: nat
  completed_tasks :: int
  total_tasks :: int
  init_done :: bool
  finished_count :: int

text \<open>The part of a queue below its count, bottom first.\<close>

definition queue_aic :: "executor \<Rightarrow> nat list" where
  "queue_aic s = map (ready_queue_aic s) [0..<ready_count_aic s]"

definition queue_aiv :: "executor \<Rightarrow> nat list" where
  "queue_aiv s = map (ready_queue_aiv s) [0..<ready_count_aiv s]"

text \<open>The loop of thread 0 that separates the initially ready tasks by core type.\<close>

fun split_initial ::
  "Graph \<Rightarrow> nat list \<Rightarrow> (nat \<Rightarrow> nat) \<times> nat \<times> (nat \<Rightarrow> nat) \<times> nat \<Rightarrow>
   (nat \<Rightarrow> nat) \<times> nat \<times> (nat \<Rightarrow> nat) \<times> nat" where
  "split_initial g [] acc = acc"
| "split_initial g (i # rest) (qa, aic_count, qv, aiv_count) =
     (if Task.core_type (g ! i) = 0
      then split_initial g rest (qa(aic_count := i), Suc aic_count, qv, aiv_count)
      else split_initial g rest (qa, aic_count, qv(aiv_count := i), Suc aiv_count))"

definition execute_init :: "Graph \<Rightarrow> executor \<Rightarrow> executor" where
  "execute_init g s =
     (case split_initial g (get_initial_ready_tasks g)
             (ready_queue_aic s, 0, ready_queue_aiv s, 0) of
        (qa, aic_count, qv, aiv_count) \<Rightarrow>
          s\<lparr>total_tasks := int (length g), completed_tasks := 0,
            ready_queue_aic := qa, ready_queue_aiv := qv,
            ready_count_aic := aic_count, ready_count_aiv := aiv_count,
            finished_count := 0, init_done := True\<rparr>)"

text \<open>Push under the mutex: write the slot at the count, then increment the count.\<close>

definition push_aic :: "executor \<Rightarrow> nat \<Rightarrow> executor" where
  "push_aic s dep_id =
     s\<lparr>ready_queue_aic := (ready_queue_aic s)(ready_count_aic s := dep_id),
       ready_count_aic := Suc (ready_count_aic s)\<rparr>"

definition push_aiv :: "executor \<Rightarrow> nat \<Rightarrow> executor" where
  "push_aiv s dep_id =
     s\<lparr>ready_queue_aiv := (ready_queue_aiv s)(ready_count_aiv s := dep_id),
       ready_count_aiv := Suc (ready_count_aiv s)\<rparr>"

text \<open>
  One pass of the loop over the fanout of a completed task. A successor id outside
  the graph is no task: the model stops with \<open>None\<close>.
\<close>

definition release_successor :: "Graph \<times> executor \<Rightarrow> nat \<Rightarrow> (Graph \<times> executor) option" where
  "release_successor gs dep_id =
     (case gs of (g, s) \<Rightarrow>
        if dep_id < length g then
          (let dep = g ! dep_id;
               prev_fanin = fanin dep;
               g' = g[dep_id := dep\<lparr>fanin := prev_fanin - 1\<rparr>]
           in Some (g', if prev_fanin = 1
                        then (if Task.core_type dep = 0 then push_aic s dep_id
                              else push_aiv s dep_id)
                        else s))
        else None)"

fun resolve_fanout :: "Graph \<times> executor \<Rightarrow> nat list \<Rightarrow> (Graph \<times> executor) option" where
  "resolve_fanout gs [] = Some gs"
| "resolve_fanout gs (dep_id # rest) =
     (case release_successor gs dep_id of
        None \<Rightarrow> None
      | Some gs' \<Rightarrow> resolve_fanout gs' rest)"

text \<open>
  Pop under the mutex: decrement the count, read the slot below the old count. The
  test of the count before the lock and the test under the lock see the same value in
  a step that is taken as a whole.
\<close>

definition pop_aic :: "executor \<Rightarrow> (nat \<times> executor) option" where
  "pop_aic s =
     (let count = ready_count_aic s in
      if count > 0 then Some (ready_queue_aic s (count - 1), s\<lparr>ready_count_aic := count - 1\<rparr>)
      else None)"

definition pop_aiv :: "executor \<Rightarrow> (nat \<times> executor) option" where
  "pop_aiv s =
     (let count = ready_count_aiv s in
      if count > 0 then Some (ready_queue_aiv s (count - 1), s\<lparr>ready_count_aiv := count - 1\<rparr>)
      else None)"

text \<open>The graph, the handshake array and the statics that all scheduler threads share.\<close>

record system =
  sys_graph :: Graph
  sys_hank :: "Handshake list"
  sys_exec :: executor

text \<open>
  What a step of the system did, as the log lines of the code name it: a task handed
  to a core, a completion collected from a core, a call of \<open>execute_task\<close> by the
  worker of a core.
\<close>

datatype event = Dispatched nat nat | Completed nat nat | KernelCall nat addr

text \<open>
  The body of the Phase 1 loop for one core. A core id outside the handshake array or
  a task pointer outside the graph is an access outside the arrays: \<open>None\<close>.
\<close>

definition collect_core :: "system \<Rightarrow> nat \<Rightarrow> (system \<times> event option) option" where
  "collect_core st core_id =
     (if core_id < length (sys_hank st) then
        (let h = sys_hank st ! core_id in
         if task_status h = 0 \<and> task h \<noteq> 0 then
           (let i = ptr_index (task h) in
            if i < length (sys_graph st) then
              (case resolve_fanout (sys_graph st, sys_exec st) (fanout (sys_graph st ! i)) of
                 None \<Rightarrow> None
               | Some (g', s') \<Rightarrow>
                   Some (\<lparr>sys_graph = g',
                          sys_hank = (sys_hank st)[core_id := h\<lparr>task := 0\<rparr>],
                          sys_exec = s'\<lparr>completed_tasks := completed_tasks s' + 1\<rparr>\<rparr>,
                         Some (Completed core_id i)))
            else None)
         else Some (st, None))
      else None)"

text \<open>The body of the Phase 2 loop for one core.\<close>

definition dispatch_core :: "system \<Rightarrow> nat \<Rightarrow> (system \<times> event option) option" where
  "dispatch_core st core_id =
     (if core_id < length (sys_hank st) then
        (let h = sys_hank st ! core_id in
         if task_status h = 0 \<and> task h = 0 then
           (case (if Handshake.core_type h = 0 then pop_aic (sys_exec st)
                  else if Handshake.core_type h = 1 then pop_aiv (sys_exec st)
                  else None) of
              None \<Rightarrow> Some (st, None)
            | Some (tid, s') \<Rightarrow>
                Some (st\<lparr>sys_hank := (sys_hank st)[core_id := publish h (task_ptr tid)],
                         sys_exec := s'\<rparr>,
                      Some (Dispatched core_id tid)))
         else Some (st, None))
      else None)"

text \<open>
  The counters local to a scheduler thread, and one pass of its \<open>while\<close> loop over
  the cores it owns: Phase 1, the test that skips the dispatch when all its cores are
  busy, Phase 2.
\<close>

record locals =
  cur_thread_completed :: int
  cur_thread_tasks_in_flight :: int

fun phase1 :: "system \<times> locals \<Rightarrow> nat list \<Rightarrow> (system \<times> locals) option" where
  "phase1 sl [] = Some sl"
| "phase1 sl (core_id # rest) =
     (case collect_core (fst sl) core_id of
        None \<Rightarrow> None
      | Some (st', None) \<Rightarrow> phase1 (st', snd sl) rest
      | Some (st', Some e) \<Rightarrow>
          phase1 (st', (snd sl)\<lparr>cur_thread_tasks_in_flight := cur_thread_tasks_in_flight (snd sl) - 1,
                               cur_thread_completed := cur_thread_completed (snd sl) + 1\<rparr>) rest)"

fun phase2 :: "system \<times> locals \<Rightarrow> nat list \<Rightarrow> (system \<times> locals) option" where
  "phase2 sl [] = Some sl"
| "phase2 sl (core_id # rest) =
     (case dispatch_core (fst sl) core_id of
        None \<Rightarrow> None
      | Some (st', None) \<Rightarrow> phase2 (st', snd sl) rest
      | Some (st', Some e) \<Rightarrow>
          phase2 (st', (snd sl)\<lparr>cur_thread_tasks_in_flight := cur_thread_tasks_in_flight (snd sl) + 1\<rparr>) rest)"

definition execute_pass :: "system \<times> locals \<Rightarrow> nat list \<Rightarrow> (system \<times> locals) option" where
  "execute_pass sl cur_thread_cores =
     (case phase1 sl cur_thread_cores of
        None \<Rightarrow> None
      | Some sl1 \<Rightarrow>
          if cur_thread_tasks_in_flight (snd sl1) \<ge> int (length cur_thread_cores) then Some sl1
          else phase2 sl1 cur_thread_cores)"

text \<open>The exit barrier at the end of \<open>execute\<close>.\<close>

definition exit_barrier :: "executor \<Rightarrow> int \<Rightarrow> executor" where
  "exit_barrier s thread_num =
     (let prev_finished = finished_count s;
          s1 = s\<lparr>finished_count := prev_finished + 1\<rparr>
      in if prev_finished + 1 = thread_num then
           s1\<lparr>ready_count_aic := 0, ready_count_aiv := 0, completed_tasks := 0,
              total_tasks := 0, init_done := False, finished_count := 0\<rparr>
         else s1)"

text \<open>The threads pass the barrier one after the other: \<open>fetch_add\<close> is atomic.\<close>

fun exit_threads :: "executor \<Rightarrow> int \<Rightarrow> nat \<Rightarrow> executor" where
  "exit_threads s thread_num 0 = s"
| "exit_threads s thread_num (Suc k) = exit_barrier (exit_threads s thread_num k) thread_num"

section \<open>Scheduler threads and workers together\<close>

text \<open>
  A step of the whole system is the Phase 1 body or the Phase 2 body of some scheduler
  thread on one core, or one pass of the loop of the worker of a core. Every run of
  the threads is a sequence of such steps (a scheduler thread takes them in the order
  of \<open>execute_pass\<close>).
\<close>

datatype action = SchedCollect nat | SchedDispatch nat | WorkerPoll nat

definition worker_step :: "(addr \<Rightarrow> nat) \<Rightarrow> system \<Rightarrow> nat \<Rightarrow> (system \<times> event option) option" where
  "worker_step bin st core_id =
     (if core_id < length (sys_hank st) then
        (case worker_iter bin (sys_hank st ! core_id) of
           (h', Ran p k) \<Rightarrow> Some (st\<lparr>sys_hank := (sys_hank st)[core_id := h']\<rparr>, Some (KernelCall core_id p))
         | (h', _) \<Rightarrow> Some (st\<lparr>sys_hank := (sys_hank st)[core_id := h']\<rparr>, None))
      else None)"

definition sys_step :: "(addr \<Rightarrow> nat) \<Rightarrow> system \<Rightarrow> action \<Rightarrow> (system \<times> event option) option" where
  "sys_step bin st a =
     (case a of
        SchedCollect c \<Rightarrow> collect_core st c
      | SchedDispatch c \<Rightarrow> dispatch_core st c
      | WorkerPoll c \<Rightarrow> worker_step bin st c)"

text \<open>The events of a sequence of steps, in order; \<open>None\<close> when a step is undefined.\<close>

fun run_actions :: "(addr \<Rightarrow> nat) \<Rightarrow> system \<Rightarrow> action list \<Rightarrow> (system \<times> event list) option" where
  "run_actions bin st [] = Some (st, [])"
| "run_actions bin st (a # as) =
     (case sys_step bin st a of
        None \<Rightarrow> None
      | Some (st', ev) \<Rightarrow>
          (case run_actions bin st' as of
             None \<Rightarrow> None
           | Some (st'', evs) \<Rightarrow> Some (st'', (case ev of None \<Rightarrow> evs | Some e \<Rightarrow> e # evs))))"

text \<open>
  The states of one \<open>execute\<close>: thread 0 has initialised the statics for the graph
  \<open>g0\<close>, then steps are taken.
\<close>

inductive reachable :: "(addr \<Rightarrow> nat) \<Rightarrow> Graph \<Rightarrow> system \<Rightarrow> bool" for bin :: "addr \<Rightarrow> nat" and g0 :: Graph where
  reach_init: "reachable bin g0 \<lparr>sys_graph = g0, sys_hank = h0, sys_exec = execute_init g0 e0\<rparr>"
| reach_step: "reachable bin g0 st \<Longrightarrow> sys_step bin st a = Some (st', ev) \<Longrightarrow> reachable bin g0 st'"

section \<open>The thread manager of the scheduler kernel (platform/a2a3/aicpu/kernel.cpp)\<close>

definition MAX_AICPU_THREADS :: int where "MAX_AICPU_THREADS = 4"
definition MAX_AIC_PER_THREAD :: int where "MAX_AIC_PER_THREAD = 24"
definition MAX_AIV_PER_THREAD :: int where "MAX_AIV_PER_THREAD = 48"
definition MAX_CORES_PER_THREAD :: int where
  "MAX_CORES_PER_THREAD = MAX_AIC_PER_THREAD + MAX_AIV_PER_THREAD"

text \<open>
  What \<open>Init\<close> reads from the launch descriptor. kernel_args.h is not among the
  sources; \<open>scheCpuNum\<close> and \<open>nrAic\<close> are \<open>uint32_t\<close> fields of \<open>DeviceArgs\<close>
  (a2a3_runtime.c), read into \<open>int\<close> variables, and \<open>core_num\<close> is the value
  that arrives in the \<open>int\<close> \<open>total_cores_\<close>.
\<close>

record KernelArgs =
  scheCpuNum :: "32 word"
  nrAic :: "32 word"
  core_num :: int

text \<open>
  The table \<open>core_assignments_\<close> is a function from the thread and the slot to the
  core index.
\<close>

record MultiThreadManager =
  thread_idx :: int
  initialized :: bool
  init_done :: bool
  init_failed :: bool
  finished :: int
  thread_num :: int
  total_cores :: int
  cores_per_thread :: int
  core_assignments :: "nat \<Rightarrow> nat \<Rightarrow> int"

text \<open>Division of \<open>int\<close> in C++ truncates towards zero.\<close>

definition c_div :: "int \<Rightarrow> int \<Rightarrow> int" where
  "c_div a b = (if (a < 0) = (b < 0) then \<bar>a\<bar> div \<bar>b\<bar> else - (\<bar>a\<bar> div \<bar>b\<bar>))"

text \<open>The body of the loop that fills the table, for thread \<open>t\<close>.\<close>

definition assign_thread :: "int \<Rightarrow> (nat \<Rightarrow> nat \<Rightarrow> int) \<Rightarrow> nat \<Rightarrow> (nat \<Rightarrow> nat \<Rightarrow> int)" where
  "assign_thread num_aic tab t =
     (let aic_idx = int t;
          aiv_base = num_aic;
          aiv_idx0 = aiv_base + int t * 2;
          aiv_idx1 = aiv_idx0 + 1
      in tab(t := (tab t)(0 := aic_idx, 1 := aiv_idx0, 2 := aiv_idx1)))"

text \<open>
  \<open>Init\<close>: the new state of the manager and the value returned. A thread that loses
  the compare-and-swap on \<open>initialized_\<close> returns 0 and changes nothing else. The
  conversion of the unsigned fields to \<open>int\<close> is \<open>sint\<close>. The \<open>int\<close> variables
  are integers without bound: with at most four threads the sums of the loop stay
  inside \<open>int\<close> unless \<open>nrAic\<close> is within 8 of its largest value.
\<close>

definition Init :: "MultiThreadManager \<Rightarrow> KernelArgs \<Rightarrow> MultiThreadManager \<times> int" where
  "Init m kargs =
     (if initialized m then (m, 0)
      else
        (let n0 = sint (scheCpuNum kargs);
             n = (if n0 = 0 then 1 else n0);
             m1 = m\<lparr>initialized := True, thread_num := n, total_cores := core_num kargs,
                    cores_per_thread := c_div (core_num kargs) n\<rparr>
         in if thread_num m1 < 1 \<or> thread_num m1 > MAX_AICPU_THREADS then
              (m1\<lparr>init_failed := True\<rparr>, - 1)
            else if cores_per_thread m1 > MAX_CORES_PER_THREAD then
              (m1\<lparr>init_failed := True\<rparr>, - 1)
            else
              (m1\<lparr>core_assignments :=
                     foldl (assign_thread (sint (nrAic kargs))) (core_assignments m1)
                       [0..<nat (thread_num m1)],
                   init_done := True\<rparr>, 0)))"

text \<open>
  The start of \<open>DynTileFwkBackendKernelServer\<close>: the null test, the call of \<open>Init\<close>
  (its value is dropped), and the loop that waits for \<open>init_done_\<close>. In a given state
  of the flags the loop is left towards \<open>Run\<close>, left with \<open>return -1\<close>, or keeps
  spinning.
\<close>

datatype server_result = EnterRun | Returned int | Spinning

definition await_init :: "MultiThreadManager \<Rightarrow> server_result" where
  "await_init m =
     (if MultiThreadManager.init_done m then EnterRun
      else if init_failed m then Returned (- 1)
      else Spinning)"

definition server_start :: "MultiThreadManager \<Rightarrow> KernelArgs option \<Rightarrow> MultiThreadManager \<times> server_result" where
  "server_start m arg =
     (case arg of
        None \<Rightarrow> (m, Returned (- 1))
      | Some kargs \<Rightarrow> (fst (Init m kargs), await_init (fst (Init m kargs))))"

text \<open>The scheduler threads enter the kernel one after the other.\<close>

fun server_threads :: "MultiThreadManager \<Rightarrow> KernelArgs \<Rightarrow> nat \<Rightarrow> MultiThreadManager \<times> server_result list" where
  "server_threads m kargs 0 = (m, [])"
| "server_threads m kargs (Suc k) =
     (case server_start m (Some kargs) of
        (m', r) \<Rightarrow> (case server_threads m' kargs k of (m'', rs) \<Rightarrow> (m'', r # rs)))"

text \<open>
  The state of the static \<open>g_mt_mgr\<close> when the program starts and after \<open>DeInit\<close>:
  the three flags are clear.
\<close>

definition fresh :: "MultiThreadManager \<Rightarrow> bool" where
  "fresh m = (\<not> initialized m \<and> \<not> MultiThreadManager.init_done m \<and> \<not> init_failed m)"

definition DeInit :: "MultiThreadManager \<Rightarrow> MultiThreadManager" where
  "DeInit m = m\<lparr>initialized := False, init_done := False, init_failed := False,
                thread_idx := 0, finished := 0\<rparr>"

text \<open>The end of \<open>DynTileFwkBackendKernelServer\<close>, after \<open>Run\<close> returned 0.\<close>

definition server_finish :: "MultiThreadManager \<Rightarrow> MultiThreadManager" where
  "server_finish m =
     (let prev_finished = finished m;
          m1 = m\<lparr>finished := prev_finished + 1\<rparr>
      in if prev_finished + 1 = thread_num m1 then DeInit m1 else m1)"

text \<open>
  The thread count that \<open>Init\<close> computes from the descriptor, and the disjunction
  of its two checks.
\<close>

definition config_threads :: "KernelArgs \<Rightarrow> int" where
  "config_threads kargs = (if sint (scheCpuNum kargs) = 0 then 1 else sint (scheCpuNum kargs))"

definition config_bad :: "KernelArgs \<Rightarrow> bool" where
  "config_bad kargs =
     (config_threads kargs < 1 \<or> config_threads kargs > MAX_AICPU_THREADS \<or>
      c_div (core_num kargs) (config_threads kargs) > MAX_CORES_PER_THREAD)"

section \<open>Notions used in the properties\<close>


text \<open>The shared counters and flags as the last thread leaves them.\<close>

definition cleared :: "executor \<Rightarrow> bool" where
  "cleared s = (ready_count_aic s = 0 \<and> ready_count_aiv s = 0 \<and> completed_tasks s = 0 \<and>
     total_tasks s = 0 \<and> \<not> executor.init_done s \<and> finished_count s = 0)"

text \<open>
  The invariant behind the affinity of core types: the steps never change the core
  type of a task, the entries of the AIC queue are tasks of type 0 and the entries of
  the AIV queue are tasks of any other type.
\<close>

definition kinds_ok :: "Graph \<Rightarrow> Graph \<times> executor \<Rightarrow> bool" where
  "kinds_ok g0 gs =
     (map Task.core_type (fst gs) = map Task.core_type g0 \<and>
      (\<forall>v\<in>set (queue_aic (snd gs)). v < length g0 \<and> Task.core_type (g0 ! v) = 0) \<and>
      (\<forall>v\<in>set (queue_aiv (snd gs)). v < length g0 \<and> Task.core_type (g0 ! v) \<noteq> 0))"

section \<open>Example inputs\<close>

text \<open>The manager as the program starts: every member zero.\<close>

definition mgr0 :: MultiThreadManager where
  "mgr0 = \<lparr>thread_idx = 0, initialized = False, init_done = False, init_failed = False,
           finished = 0, thread_num = 0, total_cores = 0, cores_per_thread = 0,
           core_assignments = (\<lambda>t i. 0)\<rparr>"

definition kargs_threads5 :: KernelArgs where
  "kargs_threads5 = \<lparr>scheCpuNum = 5, nrAic = 5, core_num = 15\<rparr>"

definition kargs_zero72 :: KernelArgs where
  "kargs_zero72 = \<lparr>scheCpuNum = 0, nrAic = 24, core_num = 72\<rparr>"

definition kargs_zero73 :: KernelArgs where
  "kargs_zero73 = \<lparr>scheCpuNum = 0, nrAic = 24, core_num = 73\<rparr>"



text \<open>The statics at the end of a run of four tasks, before any thread has left.\<close>

definition busy_exec :: executor where
  "busy_exec = \<lparr>ready_queue_aic = (\<lambda>i. 0), ready_count_aic = 2, ready_queue_aiv = (\<lambda>i. 0),
     ready_count_aiv = 1, completed_tasks = 4, total_tasks = 4, init_done = True,
     finished_count = 0\<rparr>"

text \<open>A cell after bring-up, with no task: Cube core 0.\<close>

definition idle_cell :: Handshake where
  "idle_cell = \<lparr>aicpu_ready = 1, aicore_done = 1, control = 0, task = 0,
                 task_status = 0, core_type = 0\<rparr>"

text \<open>The statics before the first \<open>execute\<close>.\<close>

definition exec0 :: executor where
  "exec0 = \<lparr>ready_queue_aic = (\<lambda>i. 0), ready_count_aic = 0, ready_queue_aiv = (\<lambda>i. 0),
     ready_count_aiv = 0, completed_tasks = 0, total_tasks = 0, init_done = False,
     finished_count = 0\<rparr>"

text \<open>A graph of one Cube task without edges, and the system after thread 0 initialised.\<close>

definition one_task :: Graph where
  "one_task = [\<lparr>fanin = 0, fanout = [], core_type = 0\<rparr>]"

definition sys1 :: system where
  "sys1 = \<lparr>sys_graph = one_task, sys_hank = [idle_cell], sys_exec = execute_init one_task exec0\<rparr>"

text \<open>The same system after the task was handed to core 0.\<close>

definition sys2 :: system where
  "sys2 = sys1\<lparr>sys_hank := [publish idle_cell (task_ptr 0)],
               sys_exec := (sys_exec sys1)\<lparr>ready_count_aic := 0\<rparr>\<rparr>"

text \<open>
  Two Cube tasks without edges: as the host builds them, as \<open>execute_graph\<close> marks
  them, after task 0 was assigned, and with task 1 complete while task 0 still counts
  as running.
\<close>

definition two_pending :: PTOTaskGraph where
  "two_pending = \<lparr>tasks_completed = 0, tasks =
     [\<lparr>functionBinAddr = 4096, dep_count = 0, deps_remaining = 0, dependents = [],
       status = PTO_TASK_PENDING, core_type = 0\<rparr>,
      \<lparr>functionBinAddr = 4096, dep_count = 0, deps_remaining = 0, dependents = [],
       status = PTO_TASK_PENDING, core_type = 0\<rparr>]\<rparr>"

definition two_ready :: PTOTaskGraph where
  "two_ready = \<lparr>tasks_completed = 0, tasks =
     [\<lparr>functionBinAddr = 4096, dep_count = 0, deps_remaining = 0, dependents = [],
       status = PTO_TASK_READY, core_type = 0\<rparr>,
      \<lparr>functionBinAddr = 4096, dep_count = 0, deps_remaining = 0, dependents = [],
       status = PTO_TASK_READY, core_type = 0\<rparr>]\<rparr>"

definition lost_graph :: PTOTaskGraph where
  "lost_graph = \<lparr>tasks_completed = 0, tasks =
     [\<lparr>functionBinAddr = 4096, dep_count = 0, deps_remaining = 0, dependents = [],
       status = PTO_TASK_RUNNING, core_type = 0\<rparr>,
      \<lparr>functionBinAddr = 4096, dep_count = 0, deps_remaining = 0, dependents = [],
       status = PTO_TASK_READY, core_type = 0\<rparr>]\<rparr>"

definition stuck_graph :: PTOTaskGraph where
  "stuck_graph = \<lparr>tasks_completed = 1, tasks =
     [\<lparr>functionBinAddr = 4096, dep_count = 0, deps_remaining = 0, dependents = [],
       status = PTO_TASK_RUNNING, core_type = 0\<rparr>,
      \<lparr>functionBinAddr = 4096, dep_count = 0, deps_remaining = 0, dependents = [],
       status = PTO_TASK_COMPLETE, core_type = 0\<rparr>]\<rparr>"

text \<open>Core 0 while task 0 is assigned and not yet run.\<close>

definition busy_cell :: Handshake where
  "busy_cell = \<lparr>aicpu_ready = 1, aicore_done = 1, control = 0, task = task_ptr 0,
                 task_status = 1, core_type = 0\<rparr>"

text \<open>Vector core 1, idle and with task 1 assigned.\<close>

definition idle_vec :: Handshake where
  "idle_vec = \<lparr>aicpu_ready = 1, aicore_done = 2, control = 0, task = 0,
                task_status = 0, core_type = 1\<rparr>"

definition busy_vec :: Handshake where
  "busy_vec = \<lparr>aicpu_ready = 1, aicore_done = 2, control = 0, task = task_ptr 1,
                task_status = 1, core_type = 1\<rparr>"

text \<open>The local counters of a scheduler thread as it enters its loop.\<close>

definition locals0 :: locals where
  "locals0 = \<lparr>cur_thread_completed = 0, cur_thread_tasks_in_flight = 0\<rparr>"





text \<open>
  A Cube task followed by a Vector task on one Cube and one Vector core: the system
  after the initialisation, after task 0 was handed to core 0, after the worker ran
  it, after the completion was collected (task 1 is in the AIV queue), and after task
  1 was handed to core 1.
\<close>

definition pipe_graph :: Graph where
  "pipe_graph = [\<lparr>fanin = 0, fanout = [1], core_type = 0\<rparr>,
                 \<lparr>fanin = 1, fanout = [], core_type = 1\<rparr>]"

definition pipe0 :: system where
  "pipe0 = \<lparr>sys_graph = pipe_graph, sys_hank = [idle_cell, idle_vec],
             sys_exec = execute_init pipe_graph exec0\<rparr>"

definition pipe1 :: system where
  "pipe1 = pipe0\<lparr>sys_hank := [busy_cell, idle_vec],
                 sys_exec := (sys_exec pipe0)\<lparr>ready_count_aic := 0\<rparr>\<rparr>"

definition pipe2 :: system where
  "pipe2 = pipe1\<lparr>sys_hank := [done_cell, idle_vec]\<rparr>"

definition pipe3 :: system where
  "pipe3 = \<lparr>sys_graph = [\<lparr>fanin = 0, fanout = [1], core_type = 0\<rparr>,
                          \<lparr>fanin = 0, fanout = [], core_type = 1\<rparr>],
             sys_hank = [idle_cell, idle_vec],
             sys_exec = (push_aiv (sys_exec pipe1) 1)\<lparr>completed_tasks := 1\<rparr>\<rparr>"

definition pipe4 :: system where
  "pipe4 = pipe3\<lparr>sys_hank := [idle_cell, busy_vec],
                 sys_exec := (sys_exec pipe3)\<lparr>ready_count_aiv := 0\<rparr>\<rparr>"

section \<open>Properties of the worker loop\<close>

text \<open>
  C1, as the code has it: one pass of the worker loop calls \<open>execute_task\<close> only
  when the quit flag is not set and the task pointer is non-zero; the pointer is the
  doorbell the worker polls. When moreover \<open>task_status\<close> is 1, the pass runs the task
  of the cell and leaves the cell with \<open>task_status = 0\<close> and the pointer in place.
\<close>

theorem worker_dispatch_guard:
  "(dispatches (snd (worker_iter bin h)) \<longrightarrow> control h \<noteq> 1 \<and> task h \<noteq> 0) \<and>
   (control h \<noteq> 1 \<longrightarrow> task h \<noteq> 0 \<longrightarrow> task_status h = 1 \<longrightarrow>
      snd (worker_iter bin h) = Ran (task h) (execute_task bin (task h)) \<and>
      task_status (fst (worker_iter bin h)) = 0 \<and>
      task (fst (worker_iter bin h)) = task h)"
  by (simp add: worker_iter_def dispatches_def)

text \<open>The instance of C1 at core 0 with task 0 assigned.\<close>

theorem worker_dispatch_guard_witness:
  "control busy_cell \<noteq> 1 \<and> task busy_cell \<noteq> 0 \<and> task_status busy_cell = 1 \<and>
   dispatches (snd (worker_iter bin4096 busy_cell)) \<and>
   snd (worker_iter bin4096 busy_cell) = Ran (task_ptr 0) (Some 4096) \<and>
   task_status (fst (worker_iter bin4096 busy_cell)) = 0"
proof -
  have a: "control busy_cell \<noteq> 1" and b: "task busy_cell \<noteq> 0"
    and c: "task_status busy_cell = 1" and d: "task busy_cell = task_ptr 0"
    by (simp_all add: busy_cell_def task_ptr_def)
  have e: "execute_task bin4096 (task_ptr 0) = Some 4096"
    by (simp add: execute_task_def bin4096_def task_ptr_def)
  from worker_dispatch_guard [of bin4096 busy_cell] a b c
  have r: "snd (worker_iter bin4096 busy_cell) = Ran (task busy_cell) (execute_task bin4096 (task busy_cell))"
    and t: "task_status (fst (worker_iter bin4096 busy_cell)) = 0"
    by blast+
  have u: "snd (worker_iter bin4096 busy_cell) = Ran (task_ptr 0) (Some 4096)"
    using r by (simp only: d e)
  have v: "dispatches (snd (worker_iter bin4096 busy_cell))"
    by (simp only: u dispatches_def worker_event.case)
  from a b c v u t show ?thesis by blast
qed

text \<open>
  C1, as the specification states it, fails: the worker runs the kernel of a cell
  whose \<open>task_status\<close> is 0.
\<close>

theorem worker_dispatches_status0:
  "task_status done_cell = 0 \<and>
   snd (worker_iter bin4096 done_cell) = Ran (task_ptr 0) (Some 4096)"
  by (simp add: worker_iter_def done_cell_def execute_task_def bin4096_def task_ptr_def)

section \<open>Properties of the thread manager\<close>

lemma uint_gt_sint:
  fixes w :: "32 word"
  assumes "4 < uint w"
  shows "sint w < 0 \<or> 4 < sint w"
proof (rule ccontr)
  assume "\<not> (sint w < 0 \<or> 4 < sint w)"
  then have r: "0 \<le> sint w" "sint w \<le> 4" by auto
  have "uint w = take_bit 32 (sint w)" using uint_sint [of w] by simp
  also have "\<dots> = sint w" using r by (simp add: take_bit_int_eq_self)
  finally show False using assms r by simp
qed

lemma fresh_mgr0: "fresh mgr0"
  by (simp add: fresh_def mgr0_def)

lemma Init_config:
  assumes "\<not> initialized m"
  shows "thread_num (fst (Init m kargs)) = config_threads kargs"
    and "cores_per_thread (fst (Init m kargs)) = c_div (core_num kargs) (config_threads kargs)"
    and "total_cores (fst (Init m kargs)) = core_num kargs"
    and "initialized (fst (Init m kargs))"
  using assms by (simp_all add: Init_def Let_def config_threads_def)

lemma Init_bad:
  assumes "\<not> initialized m" "config_bad kargs"
  shows "snd (Init m kargs) = - 1"
    and "init_failed (fst (Init m kargs))"
    and "MultiThreadManager.init_done (fst (Init m kargs)) = MultiThreadManager.init_done m"
    and "core_assignments (fst (Init m kargs)) = core_assignments m"
  using assms by (auto simp: Init_def Let_def config_threads_def config_bad_def)

lemma Init_good:
  assumes "\<not> initialized m" "\<not> config_bad kargs"
  shows "snd (Init m kargs) = 0"
    and "init_failed (fst (Init m kargs)) = init_failed m"
    and "MultiThreadManager.init_done (fst (Init m kargs))"
    and "core_assignments (fst (Init m kargs)) =
         foldl (assign_thread (sint (nrAic kargs))) (core_assignments m)
           [0..<nat (config_threads kargs)]"
  using assms by (auto simp: Init_def Let_def config_threads_def config_bad_def)

lemma failed_start:
  assumes "initialized m" "init_failed m" "\<not> MultiThreadManager.init_done m"
  shows "server_start m (Some kargs) = (m, Returned (- 1))"
  using assms by (simp add: server_start_def Init_def await_init_def)

lemma failed_threads:
  assumes "initialized m" "init_failed m" "\<not> MultiThreadManager.init_done m"
  shows "server_threads m kargs n = (m, replicate n (Returned (- 1)))"
  using assms by (induction n) (simp_all add: failed_start)

text \<open>
  C8: from the state the manager has at the start of a launch, when the configured
  thread count (\<open>scheCpuNum\<close>, unsigned) exceeds \<open>MAX_AICPU_THREADS\<close> or the computed
  \<open>cores_per_thread_\<close> exceeds \<open>MAX_CORES_PER_THREAD\<close>, \<open>Init\<close> sets \<open>init_failed_\<close>,
  leaves \<open>init_done_\<close> clear and returns -1. A thread in the wait loop spins while
  \<open>Init\<close> has not finished and returns -1 afterwards, so each of any number of
  scheduler threads that enter the kernel returns -1 from the wait loop: none reaches
  \<open>Run\<close>.
\<close>

theorem init_failure_aborts_all_threads:
  assumes "fresh m"
    and "MAX_AICPU_THREADS < uint (scheCpuNum kargs) \<or>
         MAX_CORES_PER_THREAD < cores_per_thread (fst (Init m kargs))"
  shows "init_failed (fst (Init m kargs)) \<and>
         \<not> MultiThreadManager.init_done (fst (Init m kargs)) \<and>
         snd (Init m kargs) = - 1 \<and>
         await_init m = Spinning \<and>
         await_init (fst (Init m kargs)) = Returned (- 1) \<and>
         snd (server_threads m kargs n) = replicate n (Returned (- 1)) \<and>
         EnterRun \<notin> set (snd (server_threads m kargs n))"
proof -
  let ?m = "fst (Init m kargs)"
  from assms(1) have ni: "\<not> initialized m" and nd: "\<not> MultiThreadManager.init_done m"
    by (simp_all add: fresh_def)
  have bad: "config_bad kargs"
  proof -
    from assms(2) show ?thesis
    proof
      assume "MAX_AICPU_THREADS < uint (scheCpuNum kargs)"
      then have "sint (scheCpuNum kargs) < 0 \<or> 4 < sint (scheCpuNum kargs)"
        using uint_gt_sint [of "scheCpuNum kargs"] by (simp add: MAX_AICPU_THREADS_def)
      then show ?thesis
        by (auto simp: config_bad_def config_threads_def MAX_AICPU_THREADS_def)
    next
      assume "MAX_CORES_PER_THREAD < cores_per_thread ?m"
      then show ?thesis using Init_config(2) [OF ni, of kargs] by (simp add: config_bad_def)
    qed
  qed
  have f: "initialized ?m" "init_failed ?m" "\<not> MultiThreadManager.init_done ?m"
    "snd (Init m kargs) = - 1"
    using Init_config(4) [OF ni] Init_bad [OF ni bad] nd by simp_all
  have "snd (server_threads m kargs n) = replicate n (Returned (- 1))"
  proof (cases n)
    case 0
    then show ?thesis by simp
  next
    case (Suc k)
    have "server_start m (Some kargs) = (?m, Returned (- 1))"
      using f by (simp add: server_start_def await_init_def)
    then show ?thesis using Suc f by (simp add: failed_threads)
  qed
  moreover have "await_init m = Spinning"
    using assms(1) by (simp add: await_init_def fresh_def)
  moreover have "await_init ?m = Returned (- 1)"
    using f by (simp add: await_init_def)
  ultimately show ?thesis using f by auto
qed

text \<open>The instance of C8 with five configured threads.\<close>

theorem init_failure_aborts_all_threads_witness:
  "fresh mgr0 \<and> MAX_AICPU_THREADS < uint (scheCpuNum kargs_threads5) \<and>
   init_failed (fst (Init mgr0 kargs_threads5)) \<and>
   snd (server_threads mgr0 kargs_threads5 5) =
     [Returned (- 1), Returned (- 1), Returned (- 1), Returned (- 1), Returned (- 1)]"
proof -
  have a: "fresh mgr0" by (rule fresh_mgr0)
  have b: "MAX_AICPU_THREADS < uint (scheCpuNum kargs_threads5)"
    by (simp add: kargs_threads5_def MAX_AICPU_THREADS_def)
  show ?thesis
    using a b init_failure_aborts_all_threads [OF a disjI1 [OF b], of 5]
    by (simp add: numeral_eq_Suc)
qed

text \<open>
  C10, as the code has it: with \<open>scheCpuNum = 0\<close> the thread count becomes 1 and the
  zero is not an error of its own; \<open>Init\<close> then succeeds (returns 0, sets \<open>init_done_\<close>,
  leaves \<open>init_failed_\<close> clear) exactly when the core count is at most
  \<open>MAX_CORES_PER_THREAD\<close>, and fails through the cores-per-thread check otherwise.
\<close>

theorem zero_threads_init:
  assumes "fresh m" and "scheCpuNum kargs = 0"
  shows "thread_num (fst (Init m kargs)) = 1 \<and>
         ((snd (Init m kargs) = 0 \<and> \<not> init_failed (fst (Init m kargs)) \<and>
           MultiThreadManager.init_done (fst (Init m kargs)))
          \<longleftrightarrow> core_num kargs \<le> MAX_CORES_PER_THREAD) \<and>
         ((snd (Init m kargs) = - 1 \<and> init_failed (fst (Init m kargs)))
          \<longleftrightarrow> MAX_CORES_PER_THREAD < core_num kargs)"
proof -
  from assms(1) have ni: "\<not> initialized m" and nd: "\<not> MultiThreadManager.init_done m"
    and nf: "\<not> init_failed m"
    by (simp_all add: fresh_def)
  have ct: "config_threads kargs = 1" using assms(2) by (simp add: config_threads_def)
  have cb: "config_bad kargs \<longleftrightarrow> MAX_CORES_PER_THREAD < core_num kargs"
    by (simp add: config_bad_def ct c_div_def MAX_AICPU_THREADS_def MAX_CORES_PER_THREAD_def
        MAX_AIC_PER_THREAD_def MAX_AIV_PER_THREAD_def)
  show ?thesis
  proof (cases "config_bad kargs")
    case True
    then show ?thesis
      using Init_bad [OF ni True] Init_config(1) [OF ni, of kargs] ct cb nd by auto
  next
    case False
    then show ?thesis
      using Init_good [OF ni False] Init_config(1) [OF ni, of kargs] ct cb nf by auto
  qed
qed

text \<open>The instance of C10 with 72 cores.\<close>

theorem zero_threads_init_witness:
  "fresh mgr0 \<and> scheCpuNum kargs_zero72 = 0 \<and> thread_num (fst (Init mgr0 kargs_zero72)) = 1 \<and>
   snd (Init mgr0 kargs_zero72) = 0 \<and> \<not> init_failed (fst (Init mgr0 kargs_zero72)) \<and>
   MultiThreadManager.init_done (fst (Init mgr0 kargs_zero72))"
proof -
  have a: "fresh mgr0" by (rule fresh_mgr0)
  have b: "scheCpuNum kargs_zero72 = 0" by (simp add: kargs_zero72_def)
  have c: "core_num kargs_zero72 \<le> MAX_CORES_PER_THREAD"
    by (simp add: kargs_zero72_def MAX_CORES_PER_THREAD_def MAX_AIC_PER_THREAD_def
        MAX_AIV_PER_THREAD_def)
  show ?thesis using a b c zero_threads_init [OF a b] by simp
qed

text \<open>
  C10, as the specification states it, fails: with \<open>scheCpuNum = 0\<close> and 73
  cores \<open>Init\<close> sets \<open>init_failed_\<close> and returns -1.
\<close>

theorem zero_threads_many_cores:
  "scheCpuNum kargs_zero73 = 0 \<and> init_failed (fst (Init mgr0 kargs_zero73)) \<and>
   snd (Init mgr0 kargs_zero73) = - 1"
  by (simp add: Init_def mgr0_def kargs_zero73_def Let_def c_div_def
      MAX_AICPU_THREADS_def MAX_CORES_PER_THREAD_def MAX_AIC_PER_THREAD_def MAX_AIV_PER_THREAD_def)





section \<open>Properties of the exit barrier\<close>

lemma exit_barrier_last:
  "finished_count s + 1 = n \<Longrightarrow> cleared (exit_barrier s n)"
  by (simp add: exit_barrier_def cleared_def Let_def)

lemma exit_barrier_other:
  "finished_count s + 1 \<noteq> n \<Longrightarrow> exit_barrier s n = s\<lparr>finished_count := finished_count s + 1\<rparr>"
  by (simp add: exit_barrier_def Let_def)

lemma exit_threads_before:
  "finished_count s = 0 \<Longrightarrow> k < n \<Longrightarrow> exit_threads s (int n) k = s\<lparr>finished_count := int k\<rparr>"
proof (induction k)
  case 0
  then show ?case by simp
next
  case (Suc k)
  then have "exit_threads s (int n) k = s\<lparr>finished_count := int k\<rparr>" by simp
  moreover have "int k + 1 \<noteq> int n" using Suc.prems by simp
  ultimately show ?case by (simp add: exit_barrier_other)
qed

text \<open>
  C9: a thread that passes the exit barrier adds exactly one to \<open>finished_count_\<close>;
  the thread whose incremented value equals the thread count leaves both ready counts,
  \<open>completed_tasks_\<close>, \<open>total_tasks_\<close> and \<open>finished_count_\<close> at 0 and
  \<open>init_done_\<close> false, and no other thread changes anything else. So when
  \<open>n\<close> threads pass the barrier that thread 0 had set to 0, the first \<open>k < n\<close>
  of them leave the count at \<open>k\<close> and after the last one all the shared state is
  cleared for the next \<open>execute\<close>.
\<close>

theorem exit_barrier_resets:
  "finished_count (exit_barrier s tn) =
     (if finished_count s + 1 = tn then 0 else finished_count s + 1) \<and>
   (finished_count s + 1 = tn \<longrightarrow> cleared (exit_barrier s tn)) \<and>
   (finished_count s + 1 \<noteq> tn \<longrightarrow>
      exit_barrier s tn = s\<lparr>finished_count := finished_count s + 1\<rparr>) \<and>
   (finished_count s = 0 \<longrightarrow> k < n \<longrightarrow>
      exit_threads s (int n) k = s\<lparr>finished_count := int k\<rparr>) \<and>
   (finished_count s = 0 \<longrightarrow> 0 < n \<longrightarrow> cleared (exit_threads s (int n) n))"
proof -
  have "cleared (exit_threads s (int n) n)" if z: "finished_count s = 0" and p: "0 < n"
  proof -
    obtain j where n: "n = Suc j" using p by (cases n) auto
    have "exit_threads s (int n) j = s\<lparr>finished_count := int j\<rparr>"
      using exit_threads_before [OF z, of j n] n by simp
    then have "finished_count (exit_threads s (int n) j) + 1 = int n" using n by simp
    then have "cleared (exit_barrier (exit_threads s (int n) j) (int n))"
      by (rule exit_barrier_last)
    then show ?thesis unfolding n by simp
  qed
  then show ?thesis
    using exit_threads_before [of s k n] exit_barrier_last [of s tn]
      exit_barrier_other [of s tn]
    by (auto simp: exit_barrier_def Let_def)
qed

text \<open>The instance of C9 with three threads.\<close>

theorem exit_barrier_resets_witness:
  "finished_count busy_exec = 0 \<and> (0::nat) < 3 \<and> (1::nat) < 3 \<and>
   exit_threads busy_exec 3 1 = busy_exec\<lparr>finished_count := 1\<rparr> \<and>
   cleared (exit_threads busy_exec 3 3) \<and>
   ready_count_aic (exit_threads busy_exec 3 3) = 0 \<and>
   total_tasks (exit_threads busy_exec 3 3) = 0"
proof -
  have a: "finished_count busy_exec = 0" by (simp add: busy_exec_def)
  show ?thesis
    using a exit_barrier_resets [of busy_exec 3 1 3]
    by (simp add: cleared_def)
qed

section \<open>Properties of the dispatch\<close>

lemma sys1_queue: "ready_count_aic (sys_exec sys1) = 1 \<and> ready_queue_aic (sys_exec sys1) 0 = 0
   \<and> ready_count_aiv (sys_exec sys1) = 0"
  by (simp add: sys1_def execute_init_def get_initial_ready_tasks_def one_task_def exec0_def)

lemma sys1_dispatch:
  "dispatch_core sys1 0 =
     Some (sys1\<lparr>sys_hank := [publish idle_cell (task_ptr 0)],
                sys_exec := (sys_exec sys1)\<lparr>ready_count_aic := 0\<rparr>\<rparr>, Some (Dispatched 0 0))"
  using sys1_queue
  by (simp add: dispatch_core_def pop_aic_def Let_def sys1_def idle_cell_def)

lemma dispatch_core_Dispatched:
  assumes "dispatch_core st c = Some (st', Some (Dispatched c' tid))"
  shows "c' = c" and "c < length (sys_hank st)"
    and "task_status (sys_hank st ! c) = 0" and "task (sys_hank st ! c) = 0"
    and "sys_hank st' = (sys_hank st)[c := publish (sys_hank st ! c) (task_ptr tid)]"
    and "sys_graph st' = sys_graph st"
    and "(Handshake.core_type (sys_hank st ! c) = 0 \<and> pop_aic (sys_exec st) = Some (tid, sys_exec st')) \<or>
         (Handshake.core_type (sys_hank st ! c) = 1 \<and> pop_aiv (sys_exec st) = Some (tid, sys_exec st'))"
  using assms
  by (auto simp: dispatch_core_def Let_def split: if_splits option.splits prod.splits)

lemma schedule_core_pick:
  assumes "schedule_pick aic_num graph (hank ! c) c = Some tid"
  shows "schedule_core aic_num (graph, hank, n) c =
     (graph\<lparr>tasks := (tasks graph)[tid := (tasks graph ! tid)\<lparr>status := PTO_TASK_RUNNING\<rparr>]\<rparr>,
      hank[c := publish (hank ! c) (task_ptr tid)], n + 1)"
  using assms by (simp add: schedule_core_def)

text \<open>
  C5: the stores of a dispatch are the task pointer first and \<open>task_status = 1\<close>
  second. After the first store the cell holds the new pointer and its old status;
  every state after the first store holds the pointer of the task, which is not 0, so
  none has \<open>task_status = 1\<close> with \<open>task = 0\<close>. Both schedulers leave the cell
  in the last state of this sequence, and in graphexecutor.cpp, where the cell was
  idle, no state of the sequence at all has \<open>task_status = 1\<close> with \<open>task = 0\<close>.
\<close>

theorem dispatch_publication_order:
  "write_trace h (dispatch_writes (task_ptr tid)) =
     [h, h\<lparr>task := task_ptr tid\<rparr>, h\<lparr>task := task_ptr tid, task_status := 1\<rparr>] \<and>
   publish h (task_ptr tid) = last (write_trace h (dispatch_writes (task_ptr tid))) \<and>
   (\<forall>h' \<in> set (tl (write_trace h (dispatch_writes (task_ptr tid)))).
      task h' = task_ptr tid \<and> \<not> (task_status h' = 1 \<and> task h' = 0)) \<and>
   (dispatch_core st c = Some (st', Some (Dispatched c t)) \<longrightarrow>
      sys_hank st' ! c = publish (sys_hank st ! c) (task_ptr t) \<and>
      (\<forall>h' \<in> set (write_trace (sys_hank st ! c) (dispatch_writes (task_ptr t))).
         \<not> (task_status h' = 1 \<and> task h' = 0))) \<and>
   (k < length hank \<longrightarrow> schedule_pick aic_num graph (hank ! k) k = Some j \<longrightarrow>
      fst (snd (schedule_core aic_num (graph, hank, n) k)) ! k = publish (hank ! k) (task_ptr j))"
proof -
  have tr: "write_trace x (dispatch_writes (task_ptr i)) =
     [x, x\<lparr>task := task_ptr i\<rparr>, x\<lparr>task := task_ptr i, task_status := 1\<rparr>]" for x i
    by (simp add: dispatch_writes_def apply_write_def)
  have pb: "publish x (task_ptr i) = x\<lparr>task := task_ptr i, task_status := 1\<rparr>" for x i
    by (simp add: publish_def dispatch_writes_def apply_write_def)
  have nz: "task_ptr i \<noteq> 0" for i by (simp add: task_ptr_def)
  have b: "sys_hank st' ! c = publish (sys_hank st ! c) (task_ptr t) \<and>
      (\<forall>h' \<in> set (write_trace (sys_hank st ! c) (dispatch_writes (task_ptr t))).
         \<not> (task_status h' = 1 \<and> task h' = 0))"
    if d: "dispatch_core st c = Some (st', Some (Dispatched c t))"
    using dispatch_core_Dispatched(2,3,5) [OF d] nz by (simp add: tr)
  have a: "fst (snd (schedule_core aic_num (graph, hank, n) k)) ! k = publish (hank ! k) (task_ptr j)"
    if "k < length hank" "schedule_pick aic_num graph (hank ! k) k = Some j"
    using that by (simp add: schedule_core_pick)
  show ?thesis using a b nz by (simp add: tr pb)
qed

text \<open>The instance of C5 at the dispatch of task 0 to the idle core 0, and at the assignment of task 1 by \<open>schedule_tasks\<close>.\<close>

theorem dispatch_publication_order_witness:
  "dispatch_core sys1 0 = Some (sys2, Some (Dispatched 0 0)) \<and>
   (0::nat) < length [done_cell] \<and> schedule_pick 1 lost_graph ([done_cell] ! 0) 0 = Some 1 \<and>
   write_trace idle_cell (dispatch_writes (task_ptr 0)) =
     [idle_cell, idle_cell\<lparr>task := task_ptr 0\<rparr>, idle_cell\<lparr>task := task_ptr 0, task_status := 1\<rparr>] \<and>
   sys_hank sys2 ! 0 = publish idle_cell (task_ptr 0) \<and>
   fst (snd (schedule_core 1 (lost_graph, [done_cell], 0) 0)) ! 0 = publish done_cell (task_ptr 1)"
proof -
  have a: "dispatch_core sys1 0 = Some (sys2, Some (Dispatched 0 0))"
    by (simp add: sys1_dispatch sys2_def)
  have b: "schedule_pick 1 lost_graph ([done_cell] ! 0) 0 = Some 1"
    by (simp add: schedule_pick_def lost_graph_def done_cell_def index_core_type_def
        PTO_TASK_READY_def PTO_TASK_RUNNING_def)
  have c: "sys_hank sys1 ! 0 = idle_cell" by (simp add: sys1_def)
  show ?thesis
    using a b c dispatch_publication_order [of idle_cell 0 sys1 0 sys2 0 0 "[done_cell]" 1 lost_graph 1 0]
    by simp
qed

text \<open>
  C2 fails in \<open>schedule_tasks\<close>. Two Cube tasks without dependencies, one Cube
  core: \<open>execute_graph\<close> marks both ready and the first call of \<open>schedule_tasks\<close>
  assigns task 0; \<open>check_completions\<close> finds the core busy; the worker runs task 0
  and clears \<open>task_status\<close>. The second call of \<open>schedule_tasks\<close> does not skip
  the cell (its test needs \<open>task_status != 0\<close>) and writes the pointer of task 1
  over the pointer of task 0. The completion of task 0 is lost: after task 1 has run
  and been collected, the scheduler and the worker change nothing any more, with one
  of two tasks counted, so the loop of \<open>execute_graph\<close> never ends.
\<close>

theorem lost_completion:
  "mark_initially_ready two_pending = two_ready \<and>
   schedule_tasks two_ready [idle_cell] 1 = (lost_graph, [busy_cell], 1) \<and>
   check_completions lost_graph [busy_cell] = Some (lost_graph, [busy_cell], 0) \<and>
   worker_iter bin4096 busy_cell = (done_cell, Ran (task_ptr 0) (Some 4096)) \<and>
   task done_cell = task_ptr 0 \<and> task_status done_cell = 0 \<and>
   schedule_pick 1 lost_graph done_cell 0 = Some 1 \<and>
   map task (fst (snd (schedule_tasks lost_graph [done_cell] 1))) = [task_ptr 1] \<and>
   map task_status (fst (snd (schedule_tasks lost_graph [done_cell] 1))) = [1] \<and>
   map status (tasks (fst (schedule_tasks lost_graph [done_cell] 1))) =
     [PTO_TASK_RUNNING, PTO_TASK_RUNNING] \<and>
   tasks_completed (fst (schedule_tasks lost_graph [done_cell] 1)) = 0 \<and>
   worker_iter bin4096 (publish done_cell (task_ptr 1)) =
     (done_cell\<lparr>task := task_ptr 1\<rparr>, Ran (task_ptr 1) (Some 4096)) \<and>
   check_completions (fst (schedule_tasks lost_graph [done_cell] 1))
     [done_cell\<lparr>task := task_ptr 1\<rparr>] = Some (stuck_graph, [idle_cell], 1) \<and>
   schedule_tasks stuck_graph [idle_cell] 1 = (stuck_graph, [idle_cell], 0) \<and>
   check_completions stuck_graph [idle_cell] = Some (stuck_graph, [idle_cell], 0) \<and>
   worker_iter bin4096 idle_cell = (idle_cell, Polled) \<and>
   tasks_completed stuck_graph < int (num_tasks stuck_graph)"
proof -
  have i: "mark_initially_ready two_pending = two_ready"
    by (simp add: mark_initially_ready_def two_pending_def two_ready_def)
  have a: "schedule_tasks two_ready [idle_cell] 1 = (lost_graph, [busy_cell], 1)"
    by (simp add: schedule_tasks_def schedule_core_def schedule_pick_def two_ready_def
        lost_graph_def idle_cell_def busy_cell_def index_core_type_def publish_def
        dispatch_writes_def apply_write_def task_ptr_def PTO_TASK_READY_def PTO_TASK_RUNNING_def)
  have b: "check_completions lost_graph [busy_cell] = Some (lost_graph, [busy_cell], 0)"
    by (simp add: check_completions_def complete_core_def busy_cell_def)
  have c: "worker_iter bin4096 busy_cell = (done_cell, Ran (task_ptr 0) (Some 4096))"
    by (simp add: worker_iter_def busy_cell_def done_cell_def execute_task_def bin4096_def
        task_ptr_def)
  have d: "schedule_pick 1 lost_graph done_cell 0 = Some 1"
    by (simp add: schedule_pick_def lost_graph_def done_cell_def index_core_type_def
        PTO_TASK_READY_def PTO_TASK_RUNNING_def)
  have e: "schedule_tasks lost_graph [done_cell] 1 =
     (lost_graph\<lparr>tasks := (tasks lost_graph)[1 := (tasks lost_graph ! 1)\<lparr>status := PTO_TASK_RUNNING\<rparr>]\<rparr>,
      [publish done_cell (task_ptr 1)], 1)"
    using d by (simp add: schedule_tasks_def schedule_core_def)
  have f: "check_completions
      (lost_graph\<lparr>tasks := (tasks lost_graph)[1 := (tasks lost_graph ! 1)\<lparr>status := PTO_TASK_RUNNING\<rparr>]\<rparr>)
      [done_cell\<lparr>task := task_ptr 1\<rparr>] = Some (stuck_graph, [idle_cell], 1)"
    by (simp add: check_completions_def complete_core_def lost_graph_def done_cell_def
        stuck_graph_def idle_cell_def ptr_index_def task_ptr_def Let_def)
  have g: "schedule_tasks stuck_graph [idle_cell] 1 = (stuck_graph, [idle_cell], 0)"
    by (simp add: schedule_tasks_def schedule_core_def schedule_pick_def stuck_graph_def
        idle_cell_def index_core_type_def PTO_TASK_READY_def PTO_TASK_RUNNING_def
        PTO_TASK_COMPLETE_def)
  have h: "check_completions stuck_graph [idle_cell] = Some (stuck_graph, [idle_cell], 0)"
    by (simp add: check_completions_def complete_core_def idle_cell_def)
  have w1: "worker_iter bin4096 (publish done_cell (task_ptr 1)) =
     (done_cell\<lparr>task := task_ptr 1\<rparr>, Ran (task_ptr 1) (Some 4096))"
    by (simp add: worker_iter_def done_cell_def publish_def dispatch_writes_def apply_write_def
        execute_task_def bin4096_def task_ptr_def)
  have w: "worker_iter bin4096 idle_cell = (idle_cell, Polled)"
    by (simp add: worker_iter_def idle_cell_def)
  have n: "tasks_completed stuck_graph < int (num_tasks stuck_graph)"
    by (simp add: stuck_graph_def num_tasks_def)
  show ?thesis
    using i a b c d f g h w w1 n
    by (simp add: e) (simp add: lost_graph_def done_cell_def publish_def dispatch_writes_def
        apply_write_def)
qed

text \<open>
  C3 fails: one Cube task, one Cube core, one scheduler thread. The first pass of the
  thread hands task 0 to core 0; the worker runs it and, in its next pass, before the
  scheduler has cleared the pointer, runs it again; the scheduler then collects one
  completion.
\<close>

theorem kernel_runs_twice:
  "execute_pass (sys1, locals0) [0] =
     Some (sys2, locals0\<lparr>cur_thread_tasks_in_flight := 1\<rparr>) \<and>
   map_option snd (run_actions bin4096 sys1 [SchedDispatch 0, WorkerPoll 0, WorkerPoll 0, SchedCollect 0]) =
     Some [Dispatched 0 0, KernelCall 0 (task_ptr 0), KernelCall 0 (task_ptr 0), Completed 0 0]"
proof -
  have q: "ready_count_aic (sys_exec sys1) = 1" "ready_queue_aic (sys_exec sys1) 0 = 0"
    using sys1_queue by simp_all
  have h: "sys_hank sys1 = [idle_cell]" "sys_graph sys1 = one_task" by (simp_all add: sys1_def)
  have p: "publish idle_cell (task_ptr 0) = busy_cell"
    by (simp add: publish_def dispatch_writes_def apply_write_def idle_cell_def busy_cell_def)
  have w1: "worker_iter bin4096 busy_cell = (done_cell, Ran (task_ptr 0) (Some 4096))"
    by (simp add: worker_iter_def busy_cell_def done_cell_def execute_task_def bin4096_def
        task_ptr_def)
  have w2: "worker_iter bin4096 done_cell = (done_cell, Ran (task_ptr 0) (Some 4096))"
    by (simp add: worker_iter_def done_cell_def execute_task_def bin4096_def task_ptr_def)
  have s2: "sys_hank sys2 = [busy_cell]" "sys_graph sys2 = one_task"
    by (simp_all add: sys2_def p h)
  have c: "collect_core (sys2\<lparr>sys_hank := [done_cell]\<rparr>) 0 =
     Some (\<lparr>sys_graph = one_task, sys_hank = [done_cell\<lparr>task := 0\<rparr>],
            sys_exec = (sys_exec sys2)\<lparr>completed_tasks := completed_tasks (sys_exec sys2) + 1\<rparr>\<rparr>,
           Some (Completed 0 0))"
    by (simp add: collect_core_def s2 Let_def) (simp add: done_cell_def ptr_index_def task_ptr_def one_task_def)
  have e: "execute_pass (sys1, locals0) [0] = Some (sys2, locals0\<lparr>cur_thread_tasks_in_flight := 1\<rparr>)"
    by (simp add: execute_pass_def sys1_dispatch sys2_def collect_core_def h idle_cell_def locals0_def)
  have r: "map_option snd (run_actions bin4096 sys1 [SchedDispatch 0, WorkerPoll 0, WorkerPoll 0, SchedCollect 0]) =
     Some [Dispatched 0 0, KernelCall 0 (task_ptr 0), KernelCall 0 (task_ptr 0), Completed 0 0]"
    by (simp add: sys_step_def sys1_dispatch worker_step_def sys2_def [symmetric] s2 w1 w2 c)
  show ?thesis using e r by simp
qed

section \<open>Properties of the completion\<close>

lemma queue_push_aic:
  "queue_aic (push_aic s v) = queue_aic s @ [v]" "queue_aiv (push_aic s v) = queue_aiv s"
  by (simp_all add: queue_aic_def queue_aiv_def push_aic_def)

lemma queue_push_aiv:
  "queue_aiv (push_aiv s v) = queue_aiv s @ [v]" "queue_aic (push_aiv s v) = queue_aic s"
  by (simp_all add: queue_aic_def queue_aiv_def push_aiv_def)

lemma push_counters:
  "completed_tasks (push_aic s v) = completed_tasks s" "completed_tasks (push_aiv s v) = completed_tasks s"
  "total_tasks (push_aic s v) = total_tasks s" "total_tasks (push_aiv s v) = total_tasks s"
  by (simp_all add: push_aic_def push_aiv_def)

lemma release_successor_Some:
  assumes "v < length g"
  shows "\<exists>s'. release_successor (g, s) v = Some (g[v := (g ! v)\<lparr>fanin := fanin (g ! v) - 1\<rparr>], s') \<and>
     queue_aic s' = queue_aic s @ (if fanin (g ! v) = 1 \<and> Task.core_type (g ! v) = 0 then [v] else []) \<and>
     queue_aiv s' = queue_aiv s @ (if fanin (g ! v) = 1 \<and> Task.core_type (g ! v) \<noteq> 0 then [v] else []) \<and>
     completed_tasks s' = completed_tasks s \<and> total_tasks s' = total_tasks s"
  using assms
  by (simp add: release_successor_def Let_def queue_push_aic queue_push_aiv push_counters)

lemma release_successor_None: "\<not> v < length g \<Longrightarrow> release_successor (g, s) v = None"
  by (simp add: release_successor_def)








section \<open>Core types of tasks and cores\<close>

lemma map_upd_below: "map (f(n := x)) [0..<n] = map f [0..<n]"
  by simp

lemma split_initial_queues:
  "split_initial g xs (qa, na, qv, nv) = (qa', na', qv', nv') \<Longrightarrow>
   map qa' [0..<na'] = map qa [0..<na] @ filter (\<lambda>i. Task.core_type (g ! i) = 0) xs \<and>
   map qv' [0..<nv'] = map qv [0..<nv] @ filter (\<lambda>i. Task.core_type (g ! i) \<noteq> 0) xs"
proof (induction xs arbitrary: qa na qv nv)
  case Nil
  then show ?case by simp
next
  case (Cons i xs)
  show ?case
  proof (cases "Task.core_type (g ! i) = 0")
    case True
    then have "split_initial g xs (qa(na := i), Suc na, qv, nv) = (qa', na', qv', nv')"
      using Cons.prems by simp
    from Cons.IH [OF this] show ?thesis using True by simp
  next
    case False
    then have "split_initial g xs (qa, na, qv(nv := i), Suc nv) = (qa', na', qv', nv')"
      using Cons.prems by simp
    from Cons.IH [OF this] show ?thesis using False by simp
  qed
qed

lemma execute_init_queues:
  "queue_aic (execute_init g e0) = filter (\<lambda>i. Task.core_type (g ! i) = 0) (get_initial_ready_tasks g)"
  "queue_aiv (execute_init g e0) = filter (\<lambda>i. Task.core_type (g ! i) \<noteq> 0) (get_initial_ready_tasks g)"
proof -
  obtain qa' na' qv' nv' where sp: "split_initial g (get_initial_ready_tasks g)
      (ready_queue_aic e0, 0, ready_queue_aiv e0, 0) = (qa', na', qv', nv')"
    by (metis prod_cases4)
  from split_initial_queues [OF sp]
  show "queue_aic (execute_init g e0) = filter (\<lambda>i. Task.core_type (g ! i) = 0) (get_initial_ready_tasks g)"
    and "queue_aiv (execute_init g e0) = filter (\<lambda>i. Task.core_type (g ! i) \<noteq> 0) (get_initial_ready_tasks g)"
    by (simp_all add: execute_init_def sp queue_aic_def queue_aiv_def)
qed

lemma kinds_ok_init: "kinds_ok g0 (g0, execute_init g0 e0)"
  by (auto simp: kinds_ok_def execute_init_queues get_initial_ready_tasks_def)

lemma kinds_ok_release:
  assumes "kinds_ok g0 (g, s)" and "release_successor (g, s) v = Some (g', s')"
  shows "kinds_ok g0 (g', s')"
proof -
  from assms(2) have v: "v < length g" by (simp add: release_successor_def split: if_splits)
  from assms(1) have m: "map Task.core_type g = map Task.core_type g0" by (simp add: kinds_ok_def)
  then have len: "length g = length g0" by (metis length_map)
  have ct: "Task.core_type (g ! v) = Task.core_type (g0 ! v)"
    using m v by (metis nth_map len)
  obtain s1 where r: "release_successor (g, s) v = Some (g[v := (g ! v)\<lparr>fanin := fanin (g ! v) - 1\<rparr>], s1)"
    and qa: "queue_aic s1 = queue_aic s @ (if fanin (g ! v) = 1 \<and> Task.core_type (g ! v) = 0 then [v] else [])"
    and qv: "queue_aiv s1 = queue_aiv s @ (if fanin (g ! v) = 1 \<and> Task.core_type (g ! v) \<noteq> 0 then [v] else [])"
    using release_successor_Some [OF v, of s] by blast
  from r assms(2) have g': "g' = g[v := (g ! v)\<lparr>fanin := fanin (g ! v) - 1\<rparr>]" and s': "s' = s1" by simp_all
  have "map Task.core_type g' = map Task.core_type g"
    unfolding g' by (simp add: map_update list_update_same_conv [THEN iffD2] v)
  then show ?thesis
    using assms(1) m qa qv v len ct by (auto simp: kinds_ok_def s' split: if_splits)
qed

lemma kinds_ok_resolve:
  "kinds_ok g0 gs \<Longrightarrow> resolve_fanout gs fo = Some gs' \<Longrightarrow> kinds_ok g0 gs'"
proof (induction fo arbitrary: gs)
  case Nil
  then show ?case by simp
next
  case (Cons v fo)
  from Cons.prems(2) obtain gs1 where r: "release_successor gs v = Some gs1"
    and rest: "resolve_fanout gs1 fo = Some gs'"
    by (auto split: option.splits)
  have "kinds_ok g0 gs1" using kinds_ok_release [of g0 "fst gs" "snd gs" v "fst gs1" "snd gs1"] Cons.prems(1) r
    by simp
  then show ?case using Cons.IH rest by blast
qed

lemma queue_pop:
  "pop_aic s = Some (t, s') \<Longrightarrow> t \<in> set (queue_aic s) \<and> set (queue_aic s') \<subseteq> set (queue_aic s) \<and> queue_aiv s' = queue_aiv s"
  "pop_aiv s = Some (t, s') \<Longrightarrow> t \<in> set (queue_aiv s) \<and> set (queue_aiv s') \<subseteq> set (queue_aiv s) \<and> queue_aic s' = queue_aic s"
  by (auto simp: pop_aic_def pop_aiv_def queue_aic_def queue_aiv_def Let_def split: if_splits)

lemma kinds_ok_collect:
  assumes "kinds_ok g0 (sys_graph st, sys_exec st)" and "collect_core st c = Some (st', ev)"
  shows "kinds_ok g0 (sys_graph st', sys_exec st')"
proof (cases "st' = st")
  case True
  then show ?thesis using assms(1) by simp
next
  case False
  then obtain g' s' where r: "resolve_fanout (sys_graph st, sys_exec st)
       (fanout (sys_graph st ! ptr_index (task (sys_hank st ! c)))) = Some (g', s')"
    and g: "sys_graph st' = g'" and s: "sys_exec st' = s'\<lparr>completed_tasks := completed_tasks s' + 1\<rparr>"
    using assms(2)
    by (auto simp: collect_core_def Let_def split: if_splits option.splits)
  have "kinds_ok g0 (g', s')" using kinds_ok_resolve [OF assms(1) r] .
  then show ?thesis by (simp add: kinds_ok_def g s queue_aic_def queue_aiv_def)
qed

lemma kinds_ok_dispatch:
  assumes "kinds_ok g0 (sys_graph st, sys_exec st)" and "dispatch_core st c = Some (st', ev)"
  shows "kinds_ok g0 (sys_graph st', sys_exec st')"
proof (cases ev)
  case None
  then have "st' = st" using assms(2)
    by (auto simp: dispatch_core_def Let_def split: if_splits option.splits)
  then show ?thesis using assms(1) by simp
next
  case (Some e)
  then obtain c' t where e: "e = Dispatched c' t" using assms(2)
    by (auto simp: dispatch_core_def Let_def split: if_splits option.splits)
  from dispatch_core_Dispatched(6,7) [OF assms(2) [unfolded Some e]] queue_pop [of "sys_exec st" t "sys_exec st'"]
  show ?thesis using assms(1) by (auto simp: kinds_ok_def)
qed

lemma kinds_ok_worker:
  assumes "kinds_ok g0 (sys_graph st, sys_exec st)" and "worker_step bin st c = Some (st', ev)"
  shows "kinds_ok g0 (sys_graph st', sys_exec st')"
  using assms by (auto simp: worker_step_def split: if_splits prod.splits worker_event.splits)

lemma reachable_kinds_ok:
  "reachable bin g0 st \<Longrightarrow> kinds_ok g0 (sys_graph st, sys_exec st)"
proof (induction rule: reachable.induct)
  case (reach_init h0 e0)
  then show ?case by (simp add: kinds_ok_init)
next
  case (reach_step st a st' ev)
  then show ?case
    by (cases a) (auto simp: sys_step_def intro: kinds_ok_collect kinds_ok_dispatch kinds_ok_worker)
qed

lemma scan_tasks_Some:
  "scan_tasks ts ct n = Some j \<Longrightarrow>
   n \<le> j \<and> j - n < length ts \<and> status (ts ! (j - n)) = PTO_TASK_READY \<and>
   PTOTask.core_type (ts ! (j - n)) = ct"
proof (induction ts arbitrary: n)
  case Nil
  then show ?case by simp
next
  case (Cons x ts)
  show ?case
  proof (cases "status x \<noteq> PTO_TASK_READY \<or> PTOTask.core_type x \<noteq> ct")
    case True
    then have "scan_tasks ts ct (Suc n) = Some j" using Cons.prems by (auto split: if_splits)
    from Cons.IH [OF this] show ?thesis by (auto simp: Suc_diff_le)
  next
    case False
    then show ?thesis using Cons.prems by simp
  qed
qed

text \<open>
  C6. In graphexecutor.cpp, in every state that steps of the scheduler threads and
  the workers reach after the initialisation, a dispatch writes a task of the graph
  into a cell whose core type is 0 or 1, and the task has core type 0 exactly when the
  cell has: the core type of a Cube task (0) or a Vector task (1) equals the core type
  of the cell it is written into. In aicpu_kernel.cpp the task that \<open>schedule_tasks\<close> assigns to core
  \<open>k\<close> has the core type that the index \<open>k\<close> gives the core (0 below \<open>aic_num\<close>,
  1 from there on), which is the value the host writes into the cell's \<open>core_type\<close>.
\<close>

theorem kind_affinity:
  "(reachable bin g0 st \<longrightarrow> dispatch_core st c = Some (st', Some (Dispatched c t)) \<longrightarrow>
      t < length (sys_graph st) \<and>
      (Handshake.core_type (sys_hank st ! c) = 0 \<or> Handshake.core_type (sys_hank st ! c) = 1) \<and>
      (Task.core_type (sys_graph st ! t) = 0 \<longleftrightarrow> Handshake.core_type (sys_hank st ! c) = 0) \<and>
      (Task.core_type (sys_graph st ! t) = 0 \<or> Task.core_type (sys_graph st ! t) = 1 \<longrightarrow>
         Task.core_type (sys_graph st ! t) = Handshake.core_type (sys_hank st ! c))) \<and>
   (schedule_pick aic_num graph (hank ! k) k = Some j \<longrightarrow>
      j < length (tasks graph) \<and>
      PTOTask.core_type (tasks graph ! j) = index_core_type aic_num k \<and>
      (Handshake.core_type (hank ! k) = index_core_type aic_num k \<longrightarrow>
         PTOTask.core_type (tasks graph ! j) = Handshake.core_type (hank ! k)))"
proof (intro conjI impI)
  assume r: "reachable bin g0 st" and d: "dispatch_core st c = Some (st', Some (Dispatched c t))"
  have k: "kinds_ok g0 (sys_graph st, sys_exec st)" using reachable_kinds_ok [OF r] .
  then have m: "map Task.core_type (sys_graph st) = map Task.core_type g0"
    by (simp add: kinds_ok_def)
  then have len: "length (sys_graph st) = length g0" by (metis length_map)
  have ct: "Task.core_type (sys_graph st ! v) = Task.core_type (g0 ! v)" if "v < length g0" for v
    using m that len by (metis nth_map)
  let ?k = "Handshake.core_type (sys_hank st ! c)"
  from dispatch_core_Dispatched(7) [OF d]
  have "t < length g0 \<and> (?k = 0 \<or> ?k = 1) \<and> (Task.core_type (g0 ! t) = 0 \<longleftrightarrow> ?k = 0)"
  proof
    assume a: "?k = 0 \<and> pop_aic (sys_exec st) = Some (t, sys_exec st')"
    then have "t \<in> set (queue_aic (sys_exec st))" using queue_pop(1) by blast
    then show ?thesis using k a by (simp add: kinds_ok_def)
  next
    assume a: "?k = 1 \<and> pop_aiv (sys_exec st) = Some (t, sys_exec st')"
    then have "t \<in> set (queue_aiv (sys_exec st))" using queue_pop(2) by blast
    then show ?thesis using k a by (simp add: kinds_ok_def)
  qed
  then show "t < length (sys_graph st)" and "?k = 0 \<or> ?k = 1"
    and "Task.core_type (sys_graph st ! t) = 0 \<longleftrightarrow> ?k = 0"
    using len ct by auto
  then show "Task.core_type (sys_graph st ! t) = ?k"
    if "Task.core_type (sys_graph st ! t) = 0 \<or> Task.core_type (sys_graph st ! t) = 1"
    using that by auto
next
  assume p: "schedule_pick aic_num graph (hank ! k) k = Some j"
  then have "scan_tasks (tasks graph) (index_core_type aic_num k) 0 = Some j"
    by (simp add: schedule_pick_def split: if_splits)
  from scan_tasks_Some [OF this]
  show "j < length (tasks graph)"
    and e: "PTOTask.core_type (tasks graph ! j) = index_core_type aic_num k"
    by simp_all
  show "PTOTask.core_type (tasks graph ! j) = Handshake.core_type (hank ! k)"
    if "Handshake.core_type (hank ! k) = index_core_type aic_num k"
    using e that by simp
qed

lemma pipe_init:
  "ready_count_aic (sys_exec pipe0) = 1" "ready_queue_aic (sys_exec pipe0) 0 = 0"
  "ready_count_aiv (sys_exec pipe0) = 0" "completed_tasks (sys_exec pipe0) = 0"
  by (simp_all add: pipe0_def pipe_graph_def execute_init_def get_initial_ready_tasks_def
      exec0_def upt_rec)

lemma pipe_step1: "sys_step bin4096 pipe0 (SchedDispatch 0) = Some (pipe1, Some (Dispatched 0 0))"
proof -
  have h: "sys_hank pipe0 = [idle_cell, idle_vec]" by (simp add: pipe0_def)
  have p: "publish idle_cell (task_ptr 0) = busy_cell"
    by (simp add: publish_def dispatch_writes_def apply_write_def idle_cell_def busy_cell_def)
  have i: "task_status idle_cell = 0" "task idle_cell = 0" "Handshake.core_type idle_cell = 0"
    by (simp_all add: idle_cell_def)
  show ?thesis
    using pipe_init by (simp add: sys_step_def dispatch_core_def pop_aic_def Let_def h p i pipe1_def)
qed

lemma pipe_step2: "sys_step bin4096 pipe1 (WorkerPoll 0) = Some (pipe2, Some (KernelCall 0 (task_ptr 0)))"
proof -
  have h: "sys_hank pipe1 = [busy_cell, idle_vec]" by (simp add: pipe1_def)
  have w: "worker_iter bin4096 busy_cell = (done_cell, Ran (task_ptr 0) (Some 4096))"
    by (simp add: worker_iter_def busy_cell_def done_cell_def execute_task_def bin4096_def
        task_ptr_def)
  show ?thesis by (simp add: sys_step_def worker_step_def h w pipe2_def)
qed

lemma pipe_step3: "sys_step bin4096 pipe2 (SchedCollect 0) = Some (pipe3, Some (Completed 0 0))"
proof -
  have h: "sys_hank pipe2 = [done_cell, idle_vec]" "sys_graph pipe2 = pipe_graph"
    "sys_exec pipe2 = sys_exec pipe1"
    by (simp_all add: pipe2_def pipe1_def pipe0_def)
  have d: "task_status done_cell = 0" "task done_cell = task_ptr 0" "done_cell\<lparr>task := 0\<rparr> = idle_cell"
    by (simp_all add: done_cell_def idle_cell_def)
  have c: "completed_tasks (sys_exec pipe1) = 0" using pipe_init by (simp add: pipe1_def)
  have r: "resolve_fanout (pipe_graph, sys_exec pipe1) (fanout (pipe_graph ! 0)) =
     Some ([\<lparr>fanin = 0, fanout = [1], core_type = 0\<rparr>, \<lparr>fanin = 0, fanout = [], core_type = 1\<rparr>],
           push_aiv (sys_exec pipe1) 1)"
    by (simp add: pipe_graph_def release_successor_def)
  show ?thesis
    using c by (simp add: sys_step_def collect_core_def Let_def h d r pipe3_def
        ptr_index_def task_ptr_def push_aiv_def) (simp add: pipe_graph_def)
qed

lemma pipe_step4: "dispatch_core pipe3 1 = Some (pipe4, Some (Dispatched 1 1))"
proof -
  have h: "sys_hank pipe3 = [idle_cell, idle_vec]" by (simp add: pipe3_def)
  have p: "publish idle_vec (task_ptr (Suc 0)) = busy_vec"
    by (simp add: publish_def dispatch_writes_def apply_write_def idle_vec_def busy_vec_def)
  have i: "task_status idle_vec = 0" "task idle_vec = 0" "Handshake.core_type idle_vec = 1"
    by (simp_all add: idle_vec_def)
  have q: "ready_count_aiv (sys_exec pipe3) = 1" "ready_queue_aiv (sys_exec pipe3) 0 = 1"
    using pipe_init by (simp_all add: pipe3_def pipe1_def push_aiv_def)
  show ?thesis
    using q by (simp add: dispatch_core_def pop_aiv_def Let_def h p i pipe4_def)
qed

lemma reachable_pipe3: "reachable bin4096 pipe_graph pipe3"
proof -
  have "reachable bin4096 pipe_graph pipe0" unfolding pipe0_def by (rule reach_init)
  then have "reachable bin4096 pipe_graph pipe1" using pipe_step1 by (rule reach_step)
  then have "reachable bin4096 pipe_graph pipe2" using pipe_step2 by (rule reach_step)
  then show ?thesis using pipe_step3 by (rule reach_step)
qed

text \<open>The instance of C6 at the dispatch of the Vector task 1 to the Vector core 1, three steps after the initialisation.\<close>

theorem kind_affinity_witness:
  "reachable bin4096 pipe_graph pipe3 \<and> dispatch_core pipe3 1 = Some (pipe4, Some (Dispatched 1 1)) \<and>
   Task.core_type (sys_graph pipe3 ! 1) = 1 \<and> Handshake.core_type (sys_hank pipe3 ! 1) = 1 \<and>
   schedule_pick 1 lost_graph ([done_cell] ! 0) 0 = Some 1 \<and>
   PTOTask.core_type (tasks lost_graph ! 1) = index_core_type 1 0"
proof -
  have a: "reachable bin4096 pipe_graph pipe3" by (rule reachable_pipe3)
  have b: "dispatch_core pipe3 1 = Some (pipe4, Some (Dispatched 1 1))" by (rule pipe_step4)
  have c: "schedule_pick 1 lost_graph ([done_cell] ! 0) 0 = Some 1"
    by (simp add: schedule_pick_def lost_graph_def done_cell_def index_core_type_def
        PTO_TASK_READY_def PTO_TASK_RUNNING_def)
  have d: "Task.core_type (sys_graph pipe3 ! 1) = 1" by (simp add: pipe3_def)
  show ?thesis
    using a b c d kind_affinity [of bin4096 pipe_graph pipe3 1 pipe4 1 1 lost_graph "[done_cell]" 0 1]
    by simp
qed

end
